theory Spec2Isabelle
  imports Main "HOL-Library.AList"
begin

section \<open>Python strings\<close>

text \<open>
  A Python \<open>str\<close> is a sequence of Unicode code points, and \<open>len\<close>, slicing and
  \<open>startswith\<close> count code points. A string is therefore a list of code points
  (natural numbers); \<open>asc\<close> turns an ASCII literal into such a list.
\<close>

type_synonym pystr = "nat list"

definition asc :: "string \<Rightarrow> pystr" where
  "asc s = map of_char s"

text \<open>
  The scripts use the Unicode character database through \<open>str.isalpha\<close>,
  \<open>str.lower\<close>, \<open>str.title\<close> and \<open>int\<close>. The database is not part of the
  repository. What it says about ASCII is written out in the functions below; what it
  says about the code points from 128 on is a parameter of the model. The tables map
  one character at a time; the one case in which \<open>str.lower\<close> looks at the
  neighbours of a character, the capital sigma U+03A3, is read from \<open>lower_hi\<close>
  like any other.
\<close>

record unicode =
  alpha_hi :: "nat \<Rightarrow> bool"
  lower_hi :: "nat \<Rightarrow> pystr"
  title_hi :: "nat \<Rightarrow> pystr"
  cased_hi :: "nat \<Rightarrow> bool"
  decimal_hi :: "nat \<Rightarrow> nat option"

text \<open>
  A fragment of the database for the concrete examples: the CJK unified ideographs
  U+4E00 to U+9FFF are letters without case, and the fragment knows no other letter, no
  case mapping and no digit beyond ASCII. It agrees with Unicode on every character of
  the examples (ASCII, the ideographs, and the middle dot U+00B7).
\<close>

definition ucd_fragment :: unicode where
  "ucd_fragment =
     \<lparr> alpha_hi = (\<lambda>c. 19968 \<le> c \<and> c \<le> 40959),
       lower_hi = (\<lambda>c. [c]),
       title_hi = (\<lambda>c. [c]),
       cased_hi = (\<lambda>c. False),
       decimal_hi = (\<lambda>c. None) \<rparr>"

definition ascii_upper :: "nat \<Rightarrow> bool" where
  "ascii_upper c \<longleftrightarrow> 65 \<le> c \<and> c \<le> 90"

definition ascii_lower :: "nat \<Rightarrow> bool" where
  "ascii_lower c \<longleftrightarrow> 97 \<le> c \<and> c \<le> 122"

definition isalpha :: "unicode \<Rightarrow> nat \<Rightarrow> bool" where
  "isalpha U c = (if c < 128 then ascii_upper c \<or> ascii_lower c else alpha_hi U c)"

text \<open>\<open>str.isspace\<close>: the complete list of the characters Python treats as white space.\<close>

definition isspace :: "nat \<Rightarrow> bool" where
  "isspace c \<longleftrightarrow>
     (9 \<le> c \<and> c \<le> 13) \<or> (28 \<le> c \<and> c \<le> 32) \<or> c = 133 \<or> c = 160 \<or> c = 5760 \<or>
     (8192 \<le> c \<and> c \<le> 8202) \<or> c = 8232 \<or> c = 8233 \<or> c = 8239 \<or> c = 8287 \<or>
     c = 12288"

definition strip :: "pystr \<Rightarrow> pystr" where
  "strip s = rev (dropWhile isspace (rev (dropWhile isspace s)))"

text \<open>\<open>s.split(sep)\<close> for a separator of one character; the result is never empty.\<close>

fun split :: "nat \<Rightarrow> pystr \<Rightarrow> pystr list" where
  "split sep [] = [[]]"
| "split sep (c # cs) =
     (if c = sep then [] # split sep cs
      else (case split sep cs of [] \<Rightarrow> [[c]] | l # ls \<Rightarrow> (c # l) # ls))"

definition startswith :: "pystr \<Rightarrow> pystr \<Rightarrow> bool" where
  "startswith s p \<longleftrightarrow> take (length p) s = p"

definition endswith :: "pystr \<Rightarrow> pystr \<Rightarrow> bool" where
  "endswith s p \<longleftrightarrow> length p \<le> length s \<and> drop (length s - length p) s = p"

text \<open>\<open>kw in s\<close>: \<open>kw\<close> occurs in \<open>s\<close> as a contiguous run of characters.\<close>

fun contains :: "pystr \<Rightarrow> pystr \<Rightarrow> bool" where
  "contains [] kw = (kw = [])"
| "contains (c # cs) kw = (startswith (c # cs) kw \<or> contains cs kw)"

text \<open>
  \<open>s.replace(old, new)\<close>: every occurrence of \<open>old\<close>, found from the left and not
  overlapping, becomes \<open>new\<close>.
\<close>

function replace :: "pystr \<Rightarrow> pystr \<Rightarrow> pystr \<Rightarrow> pystr" where
  "replace s old new =
     (if old = [] then new @ concat (map (\<lambda>c. c # new) s)
      else if s = [] then []
      else if startswith s old then new @ replace (drop (length old) s) old new
      else hd s # replace (tl s) old new)"
  by pat_completeness auto
termination
  by (relation "measure (\<lambda>(s, old, new). length s)") auto

declare replace.simps [simp del]

definition lower_char :: "unicode \<Rightarrow> nat \<Rightarrow> pystr" where
  "lower_char U c =
     (if ascii_upper c then [c + 32] else if c < 128 then [c] else lower_hi U c)"

definition title_char :: "unicode \<Rightarrow> nat \<Rightarrow> pystr" where
  "title_char U c =
     (if ascii_lower c then [c - 32] else if c < 128 then [c] else title_hi U c)"

definition is_cased :: "unicode \<Rightarrow> nat \<Rightarrow> bool" where
  "is_cased U c = (if c < 128 then ascii_upper c \<or> ascii_lower c else cased_hi U c)"

definition lower :: "unicode \<Rightarrow> pystr \<Rightarrow> pystr" where
  "lower U s = concat (map (lower_char U) s)"

text \<open>
  \<open>str.title\<close>: a character that follows a cased character is lowered, any other
  character gets its title-case form.
\<close>

fun title_loop :: "unicode \<Rightarrow> bool \<Rightarrow> pystr \<Rightarrow> pystr" where
  "title_loop U previous_is_cased [] = []"
| "title_loop U previous_is_cased (c # cs) =
     (if previous_is_cased then lower_char U c else title_char U c)
       @ title_loop U (is_cased U c) cs"

definition title :: "unicode \<Rightarrow> pystr \<Rightarrow> pystr" where
  "title U s = title_loop U False s"

subsection \<open>Integers and text\<close>

text \<open>
  \<open>int(s)\<close> in base 10. The text is first brought to ASCII (a white-space character
  from 128 on becomes a blank, a decimal digit of another script its ASCII digit, any
  other such character a question mark); then come optional white space of the C
  locale, an optional sign, digits that single underscores may separate, and optional
  white space up to the end. \<open>None\<close> stands for \<open>ValueError\<close>. Python's integers are
  unbounded; the interpreter's optional limit on the length of converted numerals is
  taken as switched off.
\<close>

definition to_ascii :: "unicode \<Rightarrow> nat \<Rightarrow> nat" where
  "to_ascii U c =
     (if c < 127 then c
      else if isspace c then 32
      else (case decimal_hi U c of
              Some d \<Rightarrow> if d < 10 then 48 + d else 63
            | None \<Rightarrow> 63))"

definition c_isspace :: "nat \<Rightarrow> bool" where
  "c_isspace c \<longleftrightarrow> (9 \<le> c \<and> c \<le> 13) \<or> c = 32"

definition is_digit :: "nat \<Rightarrow> bool" where
  "is_digit c \<longleftrightarrow> 48 \<le> c \<and> c \<le> 57"

definition digit_or_underscore :: "nat \<Rightarrow> bool" where
  "digit_or_underscore c \<longleftrightarrow> is_digit c \<or> c = 95"

definition digits_value :: "pystr \<Rightarrow> int" where
  "digits_value ds = foldl (\<lambda>a c. a * 10 + int (c - 48)) 0 ds"

definition py_int :: "unicode \<Rightarrow> pystr \<Rightarrow> int option" where
  "py_int U s =
     (let t = dropWhile c_isspace (map (to_ascii U) s);
          neg = (t \<noteq> [] \<and> hd t = 45);
          t' = (if t \<noteq> [] \<and> (hd t = 43 \<or> hd t = 45) then tl t else t);
          body = takeWhile digit_or_underscore t';
          rest = dropWhile digit_or_underscore t'
      in if body \<noteq> [] \<and> hd body \<noteq> 95 \<and> last body \<noteq> 95 \<and> \<not> contains body [95, 95]
            \<and> dropWhile c_isspace rest = []
         then Some (if neg then - digits_value (filter is_digit body)
                    else digits_value (filter is_digit body))
         else None)"

text \<open>The decimal numeral of a natural number, and the format \<open>{n:0wd}\<close>.\<close>

function dec_digits :: "nat \<Rightarrow> pystr" where
  "dec_digits n = (if n < 10 then [48 + n] else dec_digits (n div 10) @ [48 + n mod 10])"
  by pat_completeness auto
termination
  by (relation "measure id") auto

declare dec_digits.simps [simp del]

definition zero_pad :: "nat \<Rightarrow> pystr \<Rightarrow> pystr" where
  "zero_pad w s = replicate (w - length s) 48 @ s"

definition format_0d :: "nat \<Rightarrow> int \<Rightarrow> pystr" where
  "format_0d w n =
     (if n < 0 then 45 # zero_pad (w - 1) (dec_digits (nat (- n)))
      else zero_pad w (dec_digits (nat n)))"

section \<open>Catalog items\<close>

text \<open>
  A template is a Python dictionary with string keys: an association list, in the order
  of insertion. Its values are strings, lists of strings (the tag lists) and
  dictionaries of strings (the attribution), as the scripts build them and as the
  catalog file stores them.
\<close>

datatype jvalue = JStr pystr | JList "pystr list" | JDict "(pystr \<times> pystr) list"

type_synonym item = "(pystr \<times> jvalue) list"

datatype error = ValueError | AttributeError | TypeError | KeyError | OSError

section \<open>The literals of the scripts\<close>

text \<open>
  The Chinese keywords and tags of the two scripts, as code points. The name of each
  constant gives the meaning of the word.
\<close>

definition zh_realistic :: pystr where \<comment> \<open>realistic\<close>
  "zh_realistic = [20889, 23454]"

definition zh_anime :: pystr where \<comment> \<open>anime\<close>
  "zh_anime = [21160, 28459]"

definition zh_product :: pystr where \<comment> \<open>product\<close>
  "zh_product = [20135, 21697]"

definition zh_food :: pystr where \<comment> \<open>fine food\<close>
  "zh_food = [32654, 39135]"

definition zh_fashion :: pystr where \<comment> \<open>fashion\<close>
  "zh_fashion = [26102, 23578]"

definition zh_cyber :: pystr where \<comment> \<open>cyber\<close>
  "zh_cyber = [36187, 21338]"

definition zh_comic :: pystr where \<comment> \<open>comic\<close>
  "zh_comic = [28459, 30011]"

definition zh_poster :: pystr where \<comment> \<open>poster\<close>
  "zh_poster = [28023, 25253]"

definition zh_landscape :: pystr where \<comment> \<open>landscape\<close>
  "zh_landscape = [39118, 26223]"

definition zh_architecture :: pystr where \<comment> \<open>architecture\<close>
  "zh_architecture = [24314, 31569]"

definition zh_life :: pystr where \<comment> \<open>daily life\<close>
  "zh_life = [29983, 27963]"

definition zh_xiaohongshu :: pystr where \<comment> \<open>the Xiaohongshu channel\<close>
  "zh_xiaohongshu = [23567, 32418, 20070]"

definition zh_ecommerce :: pystr where \<comment> \<open>e-commerce\<close>
  "zh_ecommerce = [30005, 21830]"

definition zh_entertainment :: pystr where \<comment> \<open>entertainment\<close>
  "zh_entertainment = [23089, 20048]"

definition zh_short_video :: pystr where \<comment> \<open>short-video platforms\<close>
  "zh_short_video = [30701, 35270, 39057, 24179, 21488]"

definition zh_all :: pystr where \<comment> \<open>all\<close>
  "zh_all = [20840, 37096]"

definition zh_personal_portrait :: pystr where \<comment> \<open>personal portrait\<close>
  "zh_personal_portrait = [20010, 20154, 20889, 30495]"

definition zh_film_poster :: pystr where \<comment> \<open>film poster\<close>
  "zh_film_poster = [30005, 24433, 28023, 25253]"

definition zh_advert_image :: pystr where \<comment> \<open>advertising image\<close>
  "zh_advert_image = [24191, 21578, 22270]"

definition zh_product_design :: pystr where \<comment> \<open>product design\<close>
  "zh_product_design = [20135, 21697, 35774, 35745]"

definition zh_comic_illustration :: pystr where \<comment> \<open>comic illustration\<close>
  "zh_comic_illustration = [28459, 30011, 25554, 22270]"

definition zh_fullscreen_poster :: pystr where \<comment> \<open>full-screen poster\<close>
  "zh_fullscreen_poster = [20840, 23631, 28023, 25253]"

definition zh_food_catering :: pystr where \<comment> \<open>food and catering\<close>
  "zh_food_catering = [32654, 39135, 39184, 39278]"

definition zh_clothing_bags :: pystr where \<comment> \<open>clothing and bags\<close>
  "zh_clothing_bags = [26381, 39280, 31665, 21253]"

definition zh_home_decoration :: pystr where \<comment> \<open>home and decoration\<close>
  "zh_home_decoration = [23478, 23621, 23478, 35013]"

definition zh_general :: pystr where \<comment> \<open>general\<close>
  "zh_general = [36890, 29992]"

definition zh_advert_marketing :: pystr where \<comment> \<open>advertising and marketing\<close>
  "zh_advert_marketing = [24191, 21578, 33829, 38144]"

definition zh_product_display :: pystr where \<comment> \<open>product display\<close>
  "zh_product_display = [20135, 21697, 23637, 31034]"

definition zh_portrait :: pystr where \<comment> \<open>portrait\<close>
  "zh_portrait = [32918, 20687]"

definition zh_photography :: pystr where \<comment> \<open>photography\<close>
  "zh_photography = [25668, 24433]"

definition zh_design :: pystr where \<comment> \<open>design\<close>
  "zh_design = [35774, 35745]"

definition zh_scene :: pystr where \<comment> \<open>scene\<close>
  "zh_scene = [22330, 26223]"

definition zh_art_style :: pystr where \<comment> \<open>art style\<close>
  "zh_art_style = [33402, 26415, 39118, 26684]"

definition zh_role :: pystr where \<comment> \<open>character\<close>
  "zh_role = [35282, 33394]"

definition zh_interior :: pystr where \<comment> \<open>interior\<close>
  "zh_interior = [23460, 20869]"

definition zh_placeholder_prompt :: pystr where \<comment> \<open>high-quality image generation prompt\<close>
  "zh_placeholder_prompt = [39640, 36136, 37327, 22270, 20687, 29983, 25104, 25552, 31034, 35789]"

definition zh_default_params :: pystr where \<comment> \<open>the fixed parameter hint\<close>
  "zh_default_params = [21487, 26681, 25454, 38656, 35201, 35843, 25972, 25552, 31034, 35789, 20013, 30340, 39118, 26684, 12289, 32454, 33410, 21644, 36136, 37327, 21442, 25968]"

definition zh_tips_prefix :: pystr where \<comment> \<open>the head of the tips text: taken from the GitHub repository\<close>
  "zh_tips_prefix = [20174, 32, 71, 105, 116, 72, 117, 98, 32, 20179, 24211, 25552, 21462, 30340]"

definition zh_tips_suffix :: pystr where \<comment> \<open>the tail of the tips text: prompt template\<close>
  "zh_tips_suffix = [25552, 31034, 35789, 27169, 26495]"

definition zh_title_prefix :: pystr where \<comment> \<open>the head of every title, ending in the middle dot U+00B7\<close>
  "zh_title_prefix = [78, 97, 110, 111, 32, 66, 97, 110, 97, 110, 97, 183]"

definition zh_advice :: pystr where \<comment> \<open>advice, a keyword of the parameter hint\<close>
  "zh_advice = [24314, 35758]"

definition zh_parameter :: pystr where \<comment> \<open>parameter, a keyword of the parameter hint\<close>
  "zh_parameter = [21442, 25968]"

definition zh_tips_category :: pystr where \<comment> \<open>the middle of the tips text of the class\<close>
  "zh_tips_category = [31867, 25552, 31034, 35789, 27169, 26495, 65292, 36866, 29992, 20110]"

definition zh_tips_style :: pystr where \<comment> \<open>the tail of the tips text of the class\<close>
  "zh_tips_style = [39118, 26684, 30340, 22270, 20687, 29983, 25104]"

section \<open>The identifier allocator (extract\_from\_github.py)\<close>

text \<open>
  \<open>get_next_id\<close>: the loop over the templates, with \<open>max_id\<close> as its state. An item
  without the key \<open>id\<close> is passed over; an \<open>id\<close> that is not a string has no
  \<open>replace\<close> (\<open>AttributeError\<close>); an \<open>id\<close> whose text does not convert raises
  \<open>ValueError\<close>.
\<close>

fun max_id_loop :: "unicode \<Rightarrow> item list \<Rightarrow> int \<Rightarrow> error + int" where
  "max_id_loop U [] max_id = Inr max_id"
| "max_id_loop U (item # templates) max_id =
     (case map_of item (asc ''id'') of
        None \<Rightarrow> max_id_loop U templates max_id
      | Some (JStr s) \<Rightarrow>
          (case py_int U (replace s (asc ''nbp-'') []) of
             None \<Rightarrow> Inl ValueError
           | Some id_num \<Rightarrow>
               max_id_loop U templates (if id_num > max_id then id_num else max_id))
      | Some _ \<Rightarrow> Inl AttributeError)"

definition get_next_id :: "unicode \<Rightarrow> item list \<Rightarrow> error + pystr" where
  "get_next_id U templates =
     (case max_id_loop U templates 0 of
        Inl e \<Rightarrow> Inl e
      | Inr max_id \<Rightarrow> Inr (asc ''nbp-'' @ format_0d 3 (max_id + 1)))"




section \<open>The classifier\<close>

text \<open>\<open>any(kw in s for kw in kws)\<close>.\<close>

definition any_in :: "pystr list \<Rightarrow> pystr \<Rightarrow> bool" where
  "any_in kws s = list_ex (\<lambda>kw. contains s kw) kws"

text \<open>
  \<open>classify_template\<close> of extract\_from\_github.py. It lowers the content too, and
  never reads the result; the four tables look at the lowered file name only.
\<close>

definition classify_template ::
  "unicode \<Rightarrow> pystr \<Rightarrow> pystr \<Rightarrow> pystr list \<times> pystr list \<times> pystr list \<times> pystr" where
  "classify_template U filename content =
     (let filename_lower = lower U filename;
          channels =
            (if any_in [asc ''portrait'', asc ''anime'', asc ''character'', zh_realistic, zh_anime]
                  filename_lower
             then [zh_life, zh_xiaohongshu]
             else if any_in [asc ''product'', asc ''food'', asc ''fashion'',
                             zh_product, zh_food, zh_fashion] filename_lower
             then [zh_ecommerce]
             else if any_in [asc ''cyberpunk'', asc ''comic'', asc ''pixel'', asc ''fantasy'',
                             zh_cyber, zh_comic] filename_lower
             then [zh_entertainment, zh_short_video]
             else [zh_all]);
          materials =
            (if any_in [asc ''portrait'', asc ''character'', zh_realistic] filename_lower
             then [zh_personal_portrait]
             else if any_in [asc ''poster'', zh_poster] filename_lower
             then [zh_film_poster, zh_advert_image]
             else if any_in [asc ''logo'', asc ''design''] filename_lower
             then [zh_product_design]
             else if any_in [asc ''comic'', zh_comic] filename_lower
             then [zh_comic_illustration]
             else if any_in [asc ''landscape'', zh_landscape] filename_lower
             then [zh_fullscreen_poster]
             else [zh_all]);
          industries =
            (if any_in [asc ''food'', zh_food] filename_lower
             then [zh_food_catering]
             else if any_in [asc ''fashion'', zh_fashion] filename_lower
             then [zh_clothing_bags]
             else if any_in [asc ''architectural'', asc ''architecture'', zh_architecture]
                            filename_lower
             then [zh_architecture, zh_home_decoration]
             else [zh_general]);
          ratio =
            (if any_in [asc ''portrait'', zh_realistic] filename_lower then asc ''9:16''
             else if any_in [asc ''landscape'', zh_landscape] filename_lower then asc ''16:9''
             else if any_in [asc ''poster'', zh_poster] filename_lower then asc ''3:4''
             else asc ''1:1'')
      in (channels, materials, industries, ratio))"

text \<open>
  \<open>_classify_template\<close> of the class \<open>NanoBananaTemplateExtractor\<close>
  (extract\_banana\_templates.py): the category is the directory of the document, the
  title its file name with the hyphens replaced.
\<close>

definition extractor_classify_template ::
  "unicode \<Rightarrow> pystr \<Rightarrow> pystr \<Rightarrow> pystr \<Rightarrow> pystr list \<times> pystr list \<times> pystr list \<times> pystr" where
  "extractor_classify_template U category title' content =
     (let title_lower = lower U title';
          category_lower = lower U category;
          channels =
            (if category = zh_portrait \<or> contains category_lower (asc ''portrait'')
             then [zh_life, zh_xiaohongshu]
             else if category = zh_photography \<or> contains category_lower (asc ''photography'')
             then [zh_ecommerce, zh_advert_marketing]
             else if category = zh_design \<or> contains category_lower (asc ''design'')
             then [zh_ecommerce, zh_advert_marketing]
             else if category = zh_scene \<or> category = zh_art_style
             then [zh_entertainment, zh_short_video]
             else [zh_all]);
          materials =
            (if contains category_lower zh_portrait \<or> contains title_lower zh_role
                \<or> contains title_lower (asc ''character'')
                \<or> contains title_lower (asc ''portrait'')
             then [zh_personal_portrait]
             else if contains title_lower (asc ''logo'')
             then [zh_product_design]
             else if contains title_lower zh_product \<or> contains title_lower (asc ''product'')
             then [zh_product_display]
             else if contains title_lower zh_poster \<or> contains title_lower (asc ''poster'')
             then [zh_film_poster, zh_advert_image]
             else if contains title_lower zh_landscape \<or> contains title_lower (asc ''landscape'')
             then [zh_fullscreen_poster]
             else if contains category_lower zh_comic \<or> contains title_lower (asc ''comic'')
             then [zh_comic_illustration]
             else [zh_all]);
          industries =
            (if contains title_lower zh_food \<or> contains title_lower (asc ''food'')
             then [zh_food_catering]
             else if contains title_lower zh_fashion \<or> contains title_lower (asc ''fashion'')
             then [zh_clothing_bags]
             else if contains title_lower zh_architecture \<or> contains title_lower zh_interior
                     \<or> contains title_lower (asc ''architectural'')
                     \<or> contains title_lower (asc ''interior'')
             then [zh_architecture, zh_home_decoration]
             else if contains title_lower (asc ''logo'') \<or> contains title_lower zh_design
             then [zh_advert_marketing]
             else [zh_general]);
          ratio =
            (if contains category_lower zh_portrait \<or> contains title_lower (asc ''portrait'')
             then asc ''9:16''
             else if contains title_lower zh_landscape \<or> contains title_lower (asc ''landscape'')
             then asc ''16:9''
             else if contains title_lower zh_poster \<or> contains title_lower (asc ''poster'')
             then asc ''3:4''
             else asc ''1:1'')
      in (channels, materials, industries, ratio))"

text \<open>
  The keywords of the channel table and of the aspect-ratio table of each classifier,
  collected: no rule of a table matches when none of its keywords occurs.
\<close>

definition channel_keywords :: "pystr list" where
  "channel_keywords =
     [asc ''portrait'', asc ''anime'', asc ''character'', zh_realistic, zh_anime,
      asc ''product'', asc ''food'', asc ''fashion'', zh_product, zh_food, zh_fashion,
      asc ''cyberpunk'', asc ''comic'', asc ''pixel'', asc ''fantasy'', zh_cyber, zh_comic]"

definition ratio_keywords :: "pystr list" where
  "ratio_keywords =
     [asc ''portrait'', zh_realistic, asc ''landscape'', zh_landscape, asc ''poster'', zh_poster]"

definition extractor_channel_rule :: "unicode \<Rightarrow> pystr \<Rightarrow> bool" where
  "extractor_channel_rule U category \<longleftrightarrow>
     category \<in> {zh_portrait, zh_photography, zh_design, zh_scene, zh_art_style} \<or>
     any_in [asc ''portrait'', asc ''photography'', asc ''design''] (lower U category)"

definition extractor_ratio_rule :: "unicode \<Rightarrow> pystr \<Rightarrow> pystr \<Rightarrow> bool" where
  "extractor_ratio_rule U category title' \<longleftrightarrow>
     contains (lower U category) zh_portrait \<or>
     any_in [asc ''portrait'', zh_landscape, asc ''landscape'', zh_poster, asc ''poster'']
       (lower U title')"

definition aspect_ratios :: "pystr set" where
  "aspect_ratios = {asc ''9:16'', asc ''16:9'', asc ''3:4'', asc ''1:1''}"

section \<open>The prompt parser of extract\_from\_github.py\<close>

definition fence :: pystr where \<comment> \<open>three backquotes\<close>
  "fence = [96, 96, 96]"

definition hash_sign :: pystr where
  "hash_sign = [35]"

text \<open>
  The first loop of \<open>parse_prompt_file\<close>: a line that starts with the fence toggles
  \<open>in_code_block\<close>; the first non-blank line met inside a block is the prompt and ends
  the loop. The empty string says that the loop ran out of lines.
\<close>

fun code_block_loop :: "bool \<Rightarrow> pystr list \<Rightarrow> pystr" where
  "code_block_loop in_code_block [] = []"
| "code_block_loop in_code_block (line # lines) =
     (let stripped = strip line
      in if startswith stripped fence then code_block_loop (\<not> in_code_block) lines
         else if in_code_block \<and> stripped \<noteq> [] then stripped
         else code_block_loop in_code_block lines)"

text \<open>
  The second loop: the first stripped line that is not blank, is no heading, has more
  than 20 characters, and whose ASCII letters are more than 0.6 of its letters. The
  script divides two integers in floating point and compares with the literal; for
  lines of fewer than \<open>10\<^sup>1\<^sup>5\<close> letters the outcome is that of the exact
  comparison written here.
\<close>

fun english_loop :: "unicode \<Rightarrow> pystr list \<Rightarrow> pystr" where
  "english_loop U [] = []"
| "english_loop U (line # lines) =
     (let stripped = strip line
      in if stripped \<noteq> [] \<and> \<not> startswith stripped hash_sign \<and> length stripped > 20
         then (let english_chars = length (filter (\<lambda>c. isalpha U c \<and> c < 128) stripped);
                   total_chars = length (filter (isalpha U) stripped)
               in if total_chars > 0 \<and> 10 * english_chars > 6 * total_chars
                  then stripped
                  else english_loop U lines)
         else english_loop U lines)"

definition extract_prompt_text :: "unicode \<Rightarrow> pystr \<Rightarrow> pystr" where
  "extract_prompt_text U content =
     (let lines = split 10 content;
          prompt = code_block_loop False lines
      in if prompt = [] then english_loop U lines else prompt)"

definition derived_title :: "unicode \<Rightarrow> pystr \<Rightarrow> pystr" where
  "derived_title U filename =
     title U (strip (replace (replace filename (asc ''-'') (asc '' '')) (asc ''_'') (asc '' '')))"

definition source_url :: pystr where
  "source_url = asc ''https://github.com/xianyu110/awesome-nanobananapro-prompts/blob/master/''"

definition attribution :: "pystr \<Rightarrow> jvalue" where
  "attribution filepath =
     JDict [(asc ''name'', asc ''@xianyu110''), (asc ''label'', asc ''GitHub''),
            (asc ''url'', source_url @ filepath)]"

text \<open>
  \<open>parse_prompt_file\<close>: \<open>None\<close> for an empty content and for a content in which
  neither loop finds a prompt; otherwise the template, with the prompt cut at 500
  characters. The template has no \<open>id\<close> yet.
\<close>

definition parse_prompt_file :: "unicode \<Rightarrow> pystr \<Rightarrow> pystr \<Rightarrow> item option" where
  "parse_prompt_file U content filepath =
     (if content = [] then None
      else
        (let parts = split 47 (replace filepath (asc ''.md'') []);
             filename = last parts;
             prompt = extract_prompt_text U content
         in if prompt = [] then None
            else
              (let title' = derived_title U filename;
                   (channels, materials, industries, ratio) = classify_template U filename content
               in Some
                    [(asc ''title'', JStr (zh_title_prefix @ title')),
                     (asc ''channels'', JList channels),
                     (asc ''materials'', JList materials),
                     (asc ''industries'', JList industries),
                     (asc ''ratio'', JStr ratio),
                     (asc ''preview'', JStr []),
                     (asc ''image'', JStr []),
                     (asc ''prompt'', JStr (take 500 prompt)),
                     (asc ''prompt_params'', JStr zh_default_params),
                     (asc ''tips'', JStr (zh_tips_prefix @ title' @ zh_tips_suffix)),
                     (asc ''source'', attribution filepath)])))"

section \<open>The prompt parser of extract\_banana\_templates.py\<close>

text \<open>\<open>_is_english_prompt\<close>: as above, with the literal 0.7.\<close>

definition extractor_is_english_prompt :: "unicode \<Rightarrow> pystr \<Rightarrow> bool" where
  "extractor_is_english_prompt U text =
     (let english_chars = length (filter (\<lambda>c. isalpha U c \<and> c < 128) text);
          total_chars = length (filter (isalpha U) text)
      in total_chars > 0 \<and> 10 * english_chars > 7 * total_chars)"

text \<open>
  The first loop of \<open>_extract_prompt\<close> looks for both kinds of line in one pass: a
  non-blank line inside a block, or an English line outside of one.
\<close>

fun extractor_first_loop :: "unicode \<Rightarrow> bool \<Rightarrow> pystr list \<Rightarrow> pystr" where
  "extractor_first_loop U in_code_block [] = []"
| "extractor_first_loop U in_code_block (line # lines) =
     (let stripped = strip line
      in if startswith stripped fence then extractor_first_loop U (\<not> in_code_block) lines
         else if in_code_block \<and> stripped \<noteq> [] then stripped
         else if \<not> in_code_block \<and> stripped \<noteq> [] \<and> \<not> startswith stripped hash_sign
                 \<and> length stripped > 20
         then (if extractor_is_english_prompt U stripped then stripped
               else extractor_first_loop U in_code_block lines)
         else extractor_first_loop U in_code_block lines)"

fun extractor_second_loop :: "pystr list \<Rightarrow> pystr" where
  "extractor_second_loop [] = []"
| "extractor_second_loop (line # lines) =
     (let stripped = strip line
      in if stripped \<noteq> [] \<and> \<not> startswith stripped hash_sign \<and> length stripped > 10
         then stripped
         else extractor_second_loop lines)"

definition extractor_extract_prompt :: "unicode \<Rightarrow> pystr \<Rightarrow> pystr" where
  "extractor_extract_prompt U content =
     (let lines = split 10 content;
          prompt = extractor_first_loop U False lines;
          prompt = (if prompt = [] then extractor_second_loop lines else prompt)
      in if prompt \<noteq> [] then prompt else zh_placeholder_prompt)"

text \<open>\<open>_extract_params\<close>: the first line with one of four keywords, cut at 100.\<close>

fun extractor_extract_params_loop :: "unicode \<Rightarrow> pystr list \<Rightarrow> pystr" where
  "extractor_extract_params_loop U [] = zh_default_params"
| "extractor_extract_params_loop U (line # lines) =
     (let stripped = strip line
      in if any_in [asc ''parameter'', zh_advice, zh_parameter, asc ''tip''] (lower U stripped)
         then take 100 stripped
         else extractor_extract_params_loop U lines)"

definition extractor_extract_params :: "unicode \<Rightarrow> pystr \<Rightarrow> pystr" where
  "extractor_extract_params U content = extractor_extract_params_loop U (split 10 content)"

text \<open>
  The identifier of this script comes from the MD5 digest of the path:
  \<open>hash_val\<close> is the number that the first eight hexadecimal digits of the digest
  write. The digest function belongs to Python's library and is a parameter here.
\<close>

definition extractor_template_id :: "nat \<Rightarrow> pystr" where
  "extractor_template_id hash_val = asc ''nbp-'' @ format_0d 4 (int (hash_val mod 10000))"

definition extractor_parse_prompt_file ::
  "unicode \<Rightarrow> (pystr \<Rightarrow> nat) \<Rightarrow> pystr \<Rightarrow> pystr \<Rightarrow> item" where
  "extractor_parse_prompt_file U md5_head content filepath =
     (let parts = split 47 (replace filepath (asc ''.md'') []);
          category = (if length parts \<ge> 3 then parts ! (length parts - 2) else zh_general);
          filename = last parts;
          title' = strip (replace filename (asc ''-'') (asc '' ''));
          prompt = extractor_extract_prompt U content;
          hash_val = md5_head filepath;
          template_id = extractor_template_id hash_val;
          (channels, materials, industries, ratio) =
            extractor_classify_template U category title' content
      in [(asc ''id'', JStr template_id),
          (asc ''title'', JStr (zh_title_prefix @ title')),
          (asc ''channels'', JList channels),
          (asc ''materials'', JList materials),
          (asc ''industries'', JList industries),
          (asc ''ratio'', JStr ratio),
          (asc ''preview'', JStr []),
          (asc ''image'', JStr []),
          (asc ''prompt'', JStr (take 500 prompt)),
          (asc ''prompt_params'', JStr (extractor_extract_params U content)),
          (asc ''tips'', JStr (category @ zh_tips_category @ title' @ zh_tips_style)),
          (asc ''source'', attribution filepath)])"

section \<open>The extraction rules as the specification words them\<close>

text \<open>
  The specification scans the lines and toggles an "inside fenced block" flag on each
  delimiter line. \<open>fence_flags\<close> does that: it drops the delimiter lines and pairs
  every other stripped line with the flag at that line.
\<close>

fun fence_flags :: "bool \<Rightarrow> pystr list \<Rightarrow> (bool \<times> pystr) list" where
  "fence_flags inside [] = []"
| "fence_flags inside (line # lines) =
     (if startswith (strip line) fence then fence_flags (\<not> inside) lines
      else (inside, strip line) # fence_flags inside lines)"

text \<open>Rule 1: the first non-blank line inside a fenced block.\<close>

definition fenced_block_rule :: "pystr list \<Rightarrow> pystr option" where
  "fenced_block_rule lines =
     map_option snd (find (\<lambda>(inside, s). inside \<and> s \<noteq> []) (fence_flags False lines))"

text \<open>
  Rule 2: the first non-blank, non-heading line of more than 20 characters whose ASCII
  letters are more than \<open>tenths / 10\<close> of its letters.
\<close>

definition latin_line :: "unicode \<Rightarrow> nat \<Rightarrow> pystr \<Rightarrow> bool" where
  "latin_line U tenths s \<longleftrightarrow>
     s \<noteq> [] \<and> \<not> startswith s hash_sign \<and> length s > 20 \<and>
     length (filter (isalpha U) s) > 0 \<and>
     10 * length (filter (\<lambda>c. isalpha U c \<and> c < 128) s) > tenths * length (filter (isalpha U) s)"

definition latin_ratio_rule :: "unicode \<Rightarrow> nat \<Rightarrow> pystr list \<Rightarrow> pystr option" where
  "latin_ratio_rule U tenths lines = find (latin_line U tenths) (map strip lines)"

text \<open>Rule 3: the first non-blank, non-heading line of more than 10 characters.\<close>

definition unconditional_rule :: "pystr list \<Rightarrow> pystr option" where
  "unconditional_rule lines =
     find (\<lambda>s. s \<noteq> [] \<and> \<not> startswith s hash_sign \<and> length s > 10) (map strip lines)"


definition prompt_of :: "item \<Rightarrow> jvalue option" where
  "prompt_of template = map_of template (asc ''prompt'')"

section \<open>Example documents\<close>

text \<open>
  Scenario A of the specification: a fenced block that holds the single line
  \<open>Fashion photography, editorial style\<close>, in the file \<open>Fashion-Photography.md\<close> of
  the directory named "photography".
\<close>

definition doc_fashion :: pystr where
  "doc_fashion = fence @ [10] @ asc ''Fashion photography, editorial style'' @ [10] @ fence"

definition path_fashion :: pystr where
  "path_fashion =
     asc ''gpt4o-image-prompts-master/'' @ zh_photography @ asc ''/Fashion-Photography.md''"

text \<open>An English line of 35 characters in front of a fenced block.\<close>

definition doc_english_first :: pystr where
  "doc_english_first =
     asc ''This is an english description line'' @ [10] @ fence @ [10] @ asc ''A cat''
       @ [10] @ fence"

text \<open>A heading, a blank line and a line of nine characters: no rule matches.\<close>

definition doc_no_prompt :: pystr where
  "doc_no_prompt = asc ''# Title'' @ [10, 10] @ asc ''too short''"

text \<open>One line of twelve ideographs, U+4E2D U+6587 six times: rule 3 alone matches.\<close>

definition doc_ideographs :: pystr where
  "doc_ideographs =
     [20013, 25991, 20013, 25991, 20013, 25991, 20013, 25991, 20013, 25991, 20013, 25991]"

definition title_of :: "item \<Rightarrow> jvalue option" where
  "title_of template = map_of template (asc ''title'')"

definition ratio_of :: "item \<Rightarrow> jvalue option" where
  "ratio_of template = map_of template (asc ''ratio'')"

text \<open>A single English line of 35 characters, and a path for documents outside Scenario A.\<close>

definition doc_english_only :: pystr where
  "doc_english_only = asc ''This is an english description line''"

definition path_sample :: pystr where
  "path_sample = asc ''gpt4o-image-prompts-master/Art-style/Sample.md''"

section \<open>The document locator\<close>

text \<open>
  A directory as \<open>os.walk\<close> sees it: the names of its entries that are not
  directories, and its subdirectories by name, both in the order of enumeration.
\<close>

datatype tree = Tree (files: "pystr list") (dirs: "(pystr \<times> tree) list")

definition join :: "pystr \<Rightarrow> pystr \<Rightarrow> pystr" where
  \<comment> \<open>\<open>os.path.join\<close> of a directory and a name; a name has no slash\<close>
  "join root name = root @ asc ''/'' @ name"

definition relpath :: "pystr \<Rightarrow> pystr \<Rightarrow> pystr" where
  \<comment> \<open>\<open>os.path.relpath\<close> of a path that lies below \<open>start\<close>\<close>
  "relpath path start =
     (if startswith path (start @ asc ''/'') then drop (length start + 1) path else path)"

text \<open>\<open>os.walk\<close>, top down: a directory with its files, then its subdirectories.\<close>

fun walk :: "pystr \<Rightarrow> tree \<Rightarrow> (pystr \<times> pystr list) list" where
  "walk root (Tree fs ds) =
     (root, fs) # concat (map (\<lambda>(name, t). walk (join root name) t) ds)"

definition subtree_name :: pystr where
  "subtree_name = asc ''gpt4o-image-prompts-master''"

text \<open>
  \<open>find_template_files\<close> of extract\_from\_github.py. The argument \<open>repo\<close> is the
  content of \<open>repo_dir\<close>; without the target directory in it the result is empty.
\<close>

definition find_template_files :: "unicode \<Rightarrow> pystr \<Rightarrow> tree \<Rightarrow> pystr list" where
  "find_template_files U repo_dir repo =
     (let templates_dir = join repo_dir subtree_name
      in case map_of (dirs repo) subtree_name of
           None \<Rightarrow> []
         | Some t \<Rightarrow>
             concat (map (\<lambda>(root, fs).
                       map (\<lambda>file. relpath (join root file) repo_dir)
                         (filter (\<lambda>file. endswith file (asc ''.md'')
                                          \<and> lower U file \<noteq> asc ''readme.md'') fs))
                     (walk templates_dir t)))"

text \<open>\<open>find_template_files\<close> of the class: the name is compared as it is.\<close>

definition extractor_find_template_files :: "pystr \<Rightarrow> tree \<Rightarrow> pystr list" where
  "extractor_find_template_files temp_dir repo =
     (let target_dir = join temp_dir subtree_name
      in case map_of (dirs repo) subtree_name of
           None \<Rightarrow> []
         | Some t \<Rightarrow>
             concat (map (\<lambda>(root, fs).
                       map (\<lambda>file. relpath (join root file) temp_dir)
                         (filter (\<lambda>file. endswith file (asc ''.md'')
                                          \<and> file \<noteq> asc ''README.md'') fs))
                     (walk target_dir t)))"

text \<open>
  The entries below a directory, as the specification speaks of them: a file name
  together with the names of the directories that lead to it.
\<close>

inductive entry_below :: "tree \<Rightarrow> pystr list \<Rightarrow> pystr \<Rightarrow> bool" where
  here: "name \<in> set fs \<Longrightarrow> entry_below (Tree fs ds) [] name"
| below: "(d, t) \<in> set ds \<Longrightarrow> entry_below t path name \<Longrightarrow> entry_below (Tree fs ds) (d # path) name"

definition path_of :: "pystr list \<Rightarrow> pystr \<Rightarrow> pystr" where
  "path_of path name = foldl join subtree_name path @ asc ''/'' @ name"

definition tree_readmes :: tree where
  "tree_readmes =
     Tree [] [(subtree_name,
               Tree [asc ''README.md'', asc ''readme.md'', asc ''Readme.MD'']
                    [(asc ''Art-style'', Tree [asc ''Sample.md''] [])])]"

section \<open>Deduplication and merge (extract\_from\_github.py)\<close>

text \<open>
  \<open>v[:100]\<close> on a value of a template: strings and lists have slices, a dictionary
  has none.
\<close>

fun slice_100 :: "jvalue \<Rightarrow> error + jvalue" where
  "slice_100 (JStr s) = Inr (JStr (take 100 s))"
| "slice_100 (JList l) = Inr (JList (take 100 l))"
| "slice_100 (JDict d) = Inl TypeError"

text \<open>
  The loop that looks for a duplicate. It runs over \<open>existing_items\<close>, the items of
  the catalog; the left side of the comparison is evaluated first.
\<close>

fun is_duplicate :: "item list \<Rightarrow> item \<Rightarrow> error + bool" where
  "is_duplicate [] template = Inr False"
| "is_duplicate (existing # existing_items) template =
     (case slice_100 (case map_of existing (asc ''prompt'') of None \<Rightarrow> JStr [] | Some v \<Rightarrow> v) of
        Inl e \<Rightarrow> Inl e
      | Inr a \<Rightarrow>
          (case map_of template (asc ''prompt'') of
             None \<Rightarrow> Inl KeyError
           | Some v \<Rightarrow>
               (case slice_100 v of
                  Inl e \<Rightarrow> Inl e
                | Inr b \<Rightarrow> if a = b then Inr True else is_duplicate existing_items template)))"

text \<open>
  The loop of step 4 of \<open>main\<close> over the first 50 paths, with \<open>new_templates\<close> as its
  state. \<open>read\<close> is \<open>read_file_content\<close>: the content of the file, or the empty
  string when it cannot be read.
\<close>

fun parse_loop ::
  "unicode \<Rightarrow> (pystr \<Rightarrow> pystr) \<Rightarrow> item list \<Rightarrow> pystr list \<Rightarrow> item list \<Rightarrow> error + item list" where
  "parse_loop U read existing_items [] new_templates = Inr new_templates"
| "parse_loop U read existing_items (filepath # template_files) new_templates =
     (let content = read filepath
      in if content = [] then parse_loop U read existing_items template_files new_templates
         else
           (case parse_prompt_file U content filepath of
              None \<Rightarrow> parse_loop U read existing_items template_files new_templates
            | Some template \<Rightarrow>
                (case is_duplicate existing_items template of
                   Inl e \<Rightarrow> Inl e
                 | Inr True \<Rightarrow> parse_loop U read existing_items template_files new_templates
                 | Inr False \<Rightarrow>
                     (case get_next_id U (existing_items @ new_templates) of
                        Inl e \<Rightarrow> Inl e
                      | Inr new_id \<Rightarrow>
                          parse_loop U read existing_items template_files
                            (new_templates
                               @ [AList.update (asc ''id'') (JStr new_id) template])))))"

text \<open>
  The catalog, and what the catalog file holds. \<open>json.load\<close> reads the catalog from
  the file and \<open>json.dump\<close> writes it; the model keeps the catalog itself in the place
  of its JSON text. \<open>Garbled\<close> is a text that \<open>json.load\<close> rejects: the empty file
  that \<open>open(path, 'w')\<close> leaves, or the beginning of a JSON text.
\<close>

record catalog =
  meta :: "(pystr \<times> pystr) list option"
  items :: "item list option"

datatype catalog_file = Absent | Garbled | Holds catalog

text \<open>
  Step 5 writes with \<open>open(templates_json_path, 'w')\<close> and \<open>json.dump\<close> into the
  catalog file itself. Whether the two calls succeed is the environment's choice.
\<close>

datatype write_fault = Completes | Open_fails | Dump_fails

definition save :: "write_fault \<Rightarrow> catalog_file \<Rightarrow> catalog \<Rightarrow> error option \<times> catalog_file" where
  "save fault file data =
     (case fault of
        Open_fails \<Rightarrow> (Some OSError, file)
      | Dump_fails \<Rightarrow> (Some OSError, Garbled)
      | Completes \<Rightarrow> (None, Holds data))"

text \<open>
  \<open>main\<close>, from the results of steps 1 and 2 on: \<open>cloned\<close> says whether
  \<open>clone_repo_sparse\<close> returned a directory, \<open>template_files\<close> is what
  \<open>find_template_files\<close> returned, \<open>today\<close> and \<open>now\<close> are the two texts that the
  clock gives in step 5. The result is the exception that ends the run, if any, and
  what the catalog file holds afterwards.
\<close>

definition main ::
  "unicode \<Rightarrow> pystr \<Rightarrow> pystr \<Rightarrow> write_fault \<Rightarrow> bool \<Rightarrow> pystr list \<Rightarrow> (pystr \<Rightarrow> pystr) \<Rightarrow>
     catalog_file \<Rightarrow> error option \<times> catalog_file" where
  "main U today now fault cloned template_files read file =
     (if \<not> cloned then (None, file)
      else if template_files = [] then (None, file)
      else
        (case file of
           Absent \<Rightarrow> (Some OSError, file)
         | Garbled \<Rightarrow> (Some ValueError, file)
         | Holds data \<Rightarrow>
             (let existing_items = (case items data of None \<Rightarrow> [] | Some xs \<Rightarrow> xs)
              in case parse_loop U read existing_items (take 50 template_files) [] of
                   Inl e \<Rightarrow> (Some e, file)
                 | Inr new_templates \<Rightarrow>
                     if new_templates \<noteq> [] then
                       (case meta data of
                          None \<Rightarrow> (Some KeyError, file)
                        | Some m \<Rightarrow>
                            (case items data of
                               None \<Rightarrow> (Some KeyError, file)
                             | Some xs \<Rightarrow>
                                 save fault file
                                   \<lparr> meta = Some (AList.update (asc ''updated_at'') now
                                                   (AList.update (asc ''version'') today m)),
                                     items = Some (xs @ new_templates) \<rparr>))
                     else (None, file))))"





section \<open>Example runs\<close>

text \<open>
  The template that \<open>parse_prompt_file\<close> builds for a document that no table of the
  classifier knows, and the template of Scenario A.
\<close>

definition plain_template :: "pystr \<Rightarrow> pystr \<Rightarrow> pystr \<Rightarrow> item" where
  "plain_template name prompt filepath =
     [(asc ''title'', JStr (zh_title_prefix @ name)),
      (asc ''channels'', JList [zh_all]),
      (asc ''materials'', JList [zh_all]),
      (asc ''industries'', JList [zh_general]),
      (asc ''ratio'', JStr (asc ''1:1'')),
      (asc ''preview'', JStr []),
      (asc ''image'', JStr []),
      (asc ''prompt'', JStr prompt),
      (asc ''prompt_params'', JStr zh_default_params),
      (asc ''tips'', JStr (zh_tips_prefix @ name @ zh_tips_suffix)),
      (asc ''source'', attribution filepath)]"

definition template_fashion :: item where
  "template_fashion =
     [(asc ''title'', JStr (zh_title_prefix @ asc ''Fashion Photography'')),
      (asc ''channels'', JList [zh_ecommerce]),
      (asc ''materials'', JList [zh_all]),
      (asc ''industries'', JList [zh_clothing_bags]),
      (asc ''ratio'', JStr (asc ''1:1'')),
      (asc ''preview'', JStr []),
      (asc ''image'', JStr []),
      (asc ''prompt'', JStr (asc ''Fashion photography, editorial style'')),
      (asc ''prompt_params'', JStr zh_default_params),
      (asc ''tips'', JStr (zh_tips_prefix @ asc ''Fashion Photography'' @ zh_tips_suffix)),
      (asc ''source'', attribution path_fashion)]"

definition path_copy :: pystr where
  "path_copy = asc ''gpt4o-image-prompts-master/Art-style/Copy.md''"

text \<open>
  A catalog of one record, \<open>nbp-007\<close> with the prompt \<open>A cat\<close>, last written at the
  start of 2024; and a repository in which the document of Scenario A is at its path
  and every other path holds the English line in front of the block with \<open>A cat\<close>.
\<close>

definition item_cat :: item where
  "item_cat = [(asc ''id'', JStr (asc ''nbp-007'')), (asc ''prompt'', JStr (asc ''A cat''))]"

definition catalog_sample :: catalog where
  "catalog_sample =
     \<lparr> meta = Some [(asc ''version'', asc ''2024-01-01''),
                    (asc ''updated_at'', asc ''2024-01-01T00:00:00'')],
       items = Some [item_cat] \<rparr>"

definition catalog_empty :: catalog where
  "catalog_empty =
     \<lparr> meta = Some [(asc ''version'', asc ''2024-01-01''),
                    (asc ''updated_at'', asc ''2024-01-01T00:00:00'')],
       items = Some [] \<rparr>"

definition read_sample :: "pystr \<Rightarrow> pystr" where
  "read_sample filepath = (if filepath = path_fashion then doc_fashion else doc_english_first)"

definition today_sample :: pystr where
  "today_sample = asc ''2026-11-04''"

definition now_sample :: pystr where
  "now_sample = asc ''2026-11-04T09:30:00.000000''"

definition version_of :: "catalog_file \<Rightarrow> pystr option" where
  "version_of file =
     (case file of
        Holds data \<Rightarrow> (case meta data of Some m \<Rightarrow> map_of m (asc ''version'') | None \<Rightarrow> None)
      | _ \<Rightarrow> None)"

text \<open>
  The first 100 characters of the prompt of an item, for the items whose \<open>prompt\<close> is
  a string or is missing (\<open>get\<close> then gives the empty string).
\<close>

definition prompt_is_text :: "item \<Rightarrow> bool" where
  "prompt_is_text item =
     (case map_of item (asc ''prompt'') of None \<Rightarrow> True | Some (JStr s) \<Rightarrow> True | Some _ \<Rightarrow> False)"

definition prompt_prefix :: "item \<Rightarrow> pystr" where
  "prompt_prefix item =
     (case map_of item (asc ''prompt'') of Some (JStr s) \<Rightarrow> take 100 s | _ \<Rightarrow> [])"

section \<open>Evaluation on concrete texts\<close>

lemmas text_eval =
  asc_def startswith_def endswith_def replace.simps strip_def isspace_def
  ascii_upper_def ascii_lower_def isalpha_def lower_def lower_char_def
  title_def title_char_def is_cased_def

lemmas int_eval =
  py_int_def to_ascii_def c_isspace_def digit_or_underscore_def is_digit_def
  digits_value_def format_0d_def zero_pad_def dec_digits.simps Let_def
  numeral_2_eq_2 numeral_3_eq_3

lemmas zh_keywords =
  zh_realistic_def zh_anime_def zh_product_def zh_food_def zh_fashion_def zh_cyber_def
  zh_comic_def zh_poster_def zh_landscape_def zh_architecture_def zh_portrait_def
  zh_photography_def zh_design_def zh_scene_def zh_art_style_def zh_role_def zh_interior_def

section \<open>Properties of the identifier allocator\<close>






section \<open>Properties of the classifier\<close>

lemma classify_template_ratio:
  "snd (snd (snd (classify_template U filename content))) \<in> aspect_ratios"
  unfolding classify_template_def Let_def aspect_ratios_def by simp

lemma classify_template_channels:
  "fst (classify_template U filename content) \<noteq> []"
  unfolding classify_template_def Let_def by simp

lemma classify_template_materials:
  "fst (snd (classify_template U filename content)) \<noteq> []"
  unfolding classify_template_def Let_def by simp

lemma classify_template_industries:
  "fst (snd (snd (classify_template U filename content))) \<noteq> []"
  unfolding classify_template_def Let_def by simp

lemma classify_template_default_channels:
  "\<not> any_in channel_keywords (lower U filename) \<Longrightarrow>
   fst (classify_template U filename content) = [zh_all]"
  unfolding classify_template_def Let_def channel_keywords_def any_in_def by simp

lemma classify_template_default_ratio:
  "\<not> any_in ratio_keywords (lower U filename) \<Longrightarrow>
   snd (snd (snd (classify_template U filename content))) = asc ''1:1''"
  unfolding classify_template_def Let_def ratio_keywords_def any_in_def by simp

lemma extractor_classify_template_ratio:
  "snd (snd (snd (extractor_classify_template U category title' content))) \<in> aspect_ratios"
  unfolding extractor_classify_template_def Let_def aspect_ratios_def by simp

lemma extractor_classify_template_channels:
  "fst (extractor_classify_template U category title' content) \<noteq> []"
  unfolding extractor_classify_template_def Let_def by simp

lemma extractor_classify_template_materials:
  "fst (snd (extractor_classify_template U category title' content)) \<noteq> []"
  unfolding extractor_classify_template_def Let_def by simp

lemma extractor_classify_template_industries:
  "fst (snd (snd (extractor_classify_template U category title' content))) \<noteq> []"
  unfolding extractor_classify_template_def Let_def by simp

lemma extractor_classify_template_default_channels:
  "\<not> extractor_channel_rule U category \<Longrightarrow>
   fst (extractor_classify_template U category title' content) = [zh_all]"
  unfolding extractor_classify_template_def Let_def extractor_channel_rule_def any_in_def
  by simp

lemma extractor_classify_template_default_ratio:
  "\<not> extractor_ratio_rule U category title' \<Longrightarrow>
   snd (snd (snd (extractor_classify_template U category title' content))) = asc ''1:1''"
  unfolding extractor_classify_template_def Let_def extractor_ratio_rule_def any_in_def
  by simp

text \<open>
  C8. Both classifiers are total functions. Whatever the file name, the category and
  the content are, the aspect ratio they return is one of \<open>9:16\<close>, \<open>16:9\<close>, \<open>3:4\<close>
  and \<open>1:1\<close>, and the three tag lists are not empty. When no keyword of the channel
  table occurs, the channels are the single tag "all"; when no keyword of the
  aspect-ratio table occurs, the ratio is \<open>1:1\<close>.
\<close>

theorem classifier_total:
  "(classify_template U filename content = (channels, materials, industries, ratio) \<longrightarrow>
      ratio \<in> aspect_ratios \<and> channels \<noteq> [] \<and> materials \<noteq> [] \<and> industries \<noteq> [] \<and>
      (\<not> any_in channel_keywords (lower U filename) \<longrightarrow> channels = [zh_all]) \<and>
      (\<not> any_in ratio_keywords (lower U filename) \<longrightarrow> ratio = asc ''1:1'')) \<and>
   (extractor_classify_template U category title' content =
      (channels', materials', industries', ratio') \<longrightarrow>
      ratio' \<in> aspect_ratios \<and> channels' \<noteq> [] \<and> materials' \<noteq> [] \<and> industries' \<noteq> [] \<and>
      (\<not> extractor_channel_rule U category \<longrightarrow> channels' = [zh_all]) \<and>
      (\<not> extractor_ratio_rule U category title' \<longrightarrow> ratio' = asc ''1:1''))"
proof (intro conjI impI)
  assume a: "classify_template U filename content = (channels, materials, industries, ratio)"
  show "ratio \<in> aspect_ratios"
    using classify_template_ratio [of U filename content] a by simp
  show "channels \<noteq> []"
    using classify_template_channels [of U filename content] a by simp
  show "materials \<noteq> []"
    using classify_template_materials [of U filename content] a by simp
  show "industries \<noteq> []"
    using classify_template_industries [of U filename content] a by simp
  show "channels = [zh_all]" if "\<not> any_in channel_keywords (lower U filename)"
    using classify_template_default_channels [OF that, of content] a by simp
  show "ratio = asc ''1:1''" if "\<not> any_in ratio_keywords (lower U filename)"
    using classify_template_default_ratio [OF that, of content] a by simp
next
  assume b: "extractor_classify_template U category title' content =
               (channels', materials', industries', ratio')"
  show "ratio' \<in> aspect_ratios"
    using extractor_classify_template_ratio [of U category title' content] b by simp
  show "channels' \<noteq> []"
    using extractor_classify_template_channels [of U category title' content] b by simp
  show "materials' \<noteq> []"
    using extractor_classify_template_materials [of U category title' content] b by simp
  show "industries' \<noteq> []"
    using extractor_classify_template_industries [of U category title' content] b by simp
  show "channels' = [zh_all]" if "\<not> extractor_channel_rule U category"
    using extractor_classify_template_default_channels [OF that, of title' content] b by simp
  show "ratio' = asc ''1:1''" if "\<not> extractor_ratio_rule U category title'"
    using extractor_classify_template_default_ratio [OF that, of content] b by simp
qed

text \<open>
  A document that no table knows: the file \<open>Digital-art.md\<close> in a directory
  \<open>Art-style\<close>. Both classifiers return the defaults.
\<close>

lemma lower_digital_art:
  "lower U (asc ''Digital-art'') = asc ''digital-art''"
  "lower U (asc ''Digital art'') = asc ''digital art''"
  "lower U (asc ''Art-style'') = asc ''art-style''"
  by (simp_all add: text_eval)

lemma classify_template_digital_art:
  "classify_template U (asc ''Digital-art'') content =
     ([zh_all], [zh_all], [zh_general], asc ''1:1'')"
  unfolding classify_template_def Let_def lower_digital_art
  by (simp add: any_in_def asc_def startswith_def zh_keywords)

lemma extractor_classify_template_digital_art:
  "extractor_classify_template U (asc ''Art-style'') (asc ''Digital art'') content =
     ([zh_all], [zh_all], [zh_general], asc ''1:1'')"
  unfolding extractor_classify_template_def Let_def lower_digital_art
  by (simp add: any_in_def asc_def startswith_def zh_keywords)

theorem classifier_total_witness:
  "classify_template ucd_fragment (asc ''Digital-art'') [] =
     ([zh_all], [zh_all], [zh_general], asc ''1:1'') \<and>
   extractor_classify_template ucd_fragment (asc ''Art-style'') (asc ''Digital art'') [] =
     ([zh_all], [zh_all], [zh_general], asc ''1:1'') \<and>
   asc ''1:1'' \<in> aspect_ratios \<and>
   \<not> any_in channel_keywords (lower ucd_fragment (asc ''Digital-art'')) \<and>
   \<not> any_in ratio_keywords (lower ucd_fragment (asc ''Digital-art'')) \<and>
   \<not> extractor_channel_rule ucd_fragment (asc ''Art-style'') \<and>
   \<not> extractor_ratio_rule ucd_fragment (asc ''Art-style'') (asc ''Digital art'')"
proof -
  have k: "\<not> any_in channel_keywords (lower ucd_fragment (asc ''Digital-art''))"
    unfolding lower_digital_art
    by (simp add: channel_keywords_def any_in_def asc_def startswith_def zh_keywords)
  have r: "\<not> any_in ratio_keywords (lower ucd_fragment (asc ''Digital-art''))"
    unfolding lower_digital_art
    by (simp add: ratio_keywords_def any_in_def asc_def startswith_def zh_keywords)
  have k': "\<not> extractor_channel_rule ucd_fragment (asc ''Art-style'')"
    unfolding extractor_channel_rule_def lower_digital_art
    by (simp add: any_in_def asc_def startswith_def zh_keywords)
  have r': "\<not> extractor_ratio_rule ucd_fragment (asc ''Art-style'') (asc ''Digital art'')"
    unfolding extractor_ratio_rule_def lower_digital_art
    by (simp add: any_in_def asc_def startswith_def zh_keywords)
  show ?thesis
    using classifier_total [where U = ucd_fragment and filename = "asc ''Digital-art''"
        and content = "[]" and channels = "[zh_all]" and materials = "[zh_all]"
        and industries = "[zh_general]" and ratio = "asc ''1:1''"
        and category = "asc ''Art-style''" and title' = "asc ''Digital art''"
        and channels' = "[zh_all]" and materials' = "[zh_all]"
        and industries' = "[zh_general]" and ratio' = "asc ''1:1''"]
      classify_template_digital_art [of ucd_fragment "[]"]
      extractor_classify_template_digital_art [of ucd_fragment "[]"]
      k r k' r'
    by simp
qed

section \<open>The loops of the parsers and the rules\<close>








lemma parse_prompt_file_None_iff:
  "parse_prompt_file U content filepath = None \<longleftrightarrow>
     content = [] \<or> extract_prompt_text U content = []"
  by (simp add: parse_prompt_file_def Let_def split: prod.splits)



lemma extractor_parse_prompt_file_prompt:
  "prompt_of (extractor_parse_prompt_file U md5_head content filepath) =
     Some (JStr (take 500 (extractor_extract_prompt U content)))"
  by (simp add: extractor_parse_prompt_file_def prompt_of_def Let_def asc_def
      case_prod_beta)

section \<open>The parsers on the example documents\<close>

lemmas loop_eval = fence_def hash_sign_def asc_def strip_def isspace_def startswith_def Let_def

lemma extract_prompt_text_fashion: "extract_prompt_text U doc_fashion = asc ''Fashion photography, editorial style''"
  by (simp add: extract_prompt_text_def doc_fashion_def loop_eval)

lemma extractor_extract_prompt_fashion: "extractor_extract_prompt U doc_fashion = asc ''Fashion photography, editorial style''"
  by (simp add: extractor_extract_prompt_def doc_fashion_def loop_eval)

lemma extract_prompt_text_english_first: "extract_prompt_text U doc_english_first = asc ''A cat''"
  by (simp add: extract_prompt_text_def doc_english_first_def loop_eval)



lemma extract_prompt_text_no_prompt: "extract_prompt_text U doc_no_prompt = []"
  by (simp add: extract_prompt_text_def doc_no_prompt_def loop_eval)

lemma extractor_extract_prompt_no_prompt: "extractor_extract_prompt U doc_no_prompt = zh_placeholder_prompt"
  by (simp add: extractor_extract_prompt_def doc_no_prompt_def loop_eval)


lemma extractor_extract_prompt_ideographs: "extractor_extract_prompt ucd_fragment doc_ideographs = doc_ideographs"
  by (simp add: extractor_extract_prompt_def doc_ideographs_def loop_eval
      extractor_is_english_prompt_def isalpha_def ascii_upper_def ascii_lower_def ucd_fragment_def)


lemma path_fashion_parts:
  "split 47 (replace path_fashion (asc ''.md'') []) =
     [asc ''gpt4o-image-prompts-master'', zh_photography, asc ''Fashion-Photography'']"
  by (simp add: path_fashion_def zh_photography_def asc_def replace.simps startswith_def)

lemma fashion_title:
  "derived_title U (asc ''Fashion-Photography'') = asc ''Fashion Photography''"
  "strip (replace (asc ''Fashion-Photography'') (asc ''-'') (asc '' '')) = asc ''Fashion Photography''"
  by (simp_all add: derived_title_def text_eval)

lemma lower_fashion:
  "lower U (asc ''Fashion-Photography'') = asc ''fashion-photography''"
  "lower U (asc ''Fashion Photography'') = asc ''fashion photography''"
  "lower ucd_fragment zh_photography = zh_photography"
  by (simp_all add: text_eval zh_photography_def ucd_fragment_def)

lemma classify_template_fashion:
  "classify_template U (asc ''Fashion-Photography'') content =
     ([zh_ecommerce], [zh_all], [zh_clothing_bags], asc ''1:1'')"
  unfolding classify_template_def Let_def lower_fashion
  by (simp add: any_in_def asc_def startswith_def zh_keywords)

lemma extractor_classify_template_fashion:
  "extractor_classify_template ucd_fragment zh_photography (asc ''Fashion Photography'') content =
     ([zh_ecommerce, zh_advert_marketing], [zh_all], [zh_clothing_bags], asc ''1:1'')"
  unfolding extractor_classify_template_def Let_def lower_fashion
  by (simp add: any_in_def asc_def startswith_def zh_keywords)

lemma extractor_extract_params_fashion:
  "extractor_extract_params U doc_fashion = zh_default_params"
  by (simp add: extractor_extract_params_def doc_fashion_def loop_eval any_in_def
      lower_def lower_char_def ascii_upper_def zh_advice_def zh_parameter_def)

lemma fashion_prompt_facts:
  "asc ''Fashion photography, editorial style'' \<noteq> []"
  "take 500 (asc ''Fashion photography, editorial style'') =
     asc ''Fashion photography, editorial style''"
  by (simp_all add: asc_def)

lemma doc_fashion_nonempty: "doc_fashion \<noteq> []"
  by (simp add: doc_fashion_def fence_def)

lemma parse_prompt_file_fashion:
  "parse_prompt_file U doc_fashion path_fashion =
     Some [(asc ''title'', JStr (zh_title_prefix @ asc ''Fashion Photography'')),
           (asc ''channels'', JList [zh_ecommerce]),
           (asc ''materials'', JList [zh_all]),
           (asc ''industries'', JList [zh_clothing_bags]),
           (asc ''ratio'', JStr (asc ''1:1'')),
           (asc ''preview'', JStr []),
           (asc ''image'', JStr []),
           (asc ''prompt'', JStr (asc ''Fashion photography, editorial style'')),
           (asc ''prompt_params'', JStr zh_default_params),
           (asc ''tips'', JStr (zh_tips_prefix @ asc ''Fashion Photography'' @ zh_tips_suffix)),
           (asc ''source'', attribution path_fashion)]"
  unfolding parse_prompt_file_def Let_def path_fashion_parts extract_prompt_text_fashion
  by (simp add: doc_fashion_nonempty fashion_title classify_template_fashion
      fashion_prompt_facts)

lemma extractor_parse_prompt_file_fashion:
  "extractor_parse_prompt_file ucd_fragment md5_head doc_fashion path_fashion =
     [(asc ''id'', JStr (extractor_template_id (md5_head path_fashion))),
      (asc ''title'', JStr (zh_title_prefix @ asc ''Fashion Photography'')),
      (asc ''channels'', JList [zh_ecommerce, zh_advert_marketing]),
      (asc ''materials'', JList [zh_all]),
      (asc ''industries'', JList [zh_clothing_bags]),
      (asc ''ratio'', JStr (asc ''1:1'')),
      (asc ''preview'', JStr []),
      (asc ''image'', JStr []),
      (asc ''prompt'', JStr (asc ''Fashion photography, editorial style'')),
      (asc ''prompt_params'', JStr zh_default_params),
      (asc ''tips'', JStr (zh_photography @ zh_tips_category @ asc ''Fashion Photography'' @ zh_tips_style)),
      (asc ''source'', attribution path_fashion)]"
  unfolding extractor_parse_prompt_file_def Let_def path_fashion_parts extractor_extract_prompt_fashion
    extractor_extract_params_fashion
  by (simp add: fashion_title extractor_classify_template_fashion fashion_prompt_facts)
section \<open>Properties of the prompt parsers\<close>







lemma short_prompts:
  "take 500 (asc ''A cat'') = asc ''A cat''"
  "take 500 doc_english_only = doc_english_only"
  "take 500 doc_ideographs = doc_ideographs"
  by (simp_all add: asc_def doc_english_only_def doc_ideographs_def)



text \<open>
  C1. The claim asks that a document in which no rule finds a prompt gives a parse
  failure and no record. \<open>parse_prompt_file\<close> of extract\_from\_github.py does that. The
  class \<open>NanoBananaTemplateExtractor\<close> does not: on the document of a heading, a blank
  line and a line of nine characters no rule matches, the document passes the length
  test of \<open>extract_all_templates\<close>, \<open>_extract_prompt\<close> returns its fixed placeholder,
  and the placeholder becomes the prompt of a record.
\<close>

theorem placeholder_prompt_returned:
  "fenced_block_rule (split 10 doc_no_prompt) = None \<and>
   latin_ratio_rule ucd_fragment 6 (split 10 doc_no_prompt) = None \<and>
   latin_ratio_rule ucd_fragment 7 (split 10 doc_no_prompt) = None \<and>
   unconditional_rule (split 10 doc_no_prompt) = None \<and>
   parse_prompt_file ucd_fragment doc_no_prompt path_sample = None \<and>
   length doc_no_prompt > 10 \<and>
   extractor_extract_prompt ucd_fragment doc_no_prompt = zh_placeholder_prompt \<and>
   prompt_of (extractor_parse_prompt_file ucd_fragment md5_head doc_no_prompt path_sample) =
     Some (JStr zh_placeholder_prompt)"
proof -
  have "fenced_block_rule (split 10 doc_no_prompt) = None"
    "latin_ratio_rule ucd_fragment 6 (split 10 doc_no_prompt) = None"
    "latin_ratio_rule ucd_fragment 7 (split 10 doc_no_prompt) = None"
    "unconditional_rule (split 10 doc_no_prompt) = None"
    by (simp_all add: fenced_block_rule_def latin_ratio_rule_def unconditional_rule_def
        doc_no_prompt_def loop_eval latin_line_def)
  moreover have "length doc_no_prompt > 10"
    by (simp add: doc_no_prompt_def asc_def)
  moreover have "take 500 zh_placeholder_prompt = zh_placeholder_prompt"
    by (simp add: zh_placeholder_prompt_def)
  ultimately show ?thesis
    using extract_prompt_text_no_prompt [of ucd_fragment]
      extractor_extract_prompt_no_prompt [of ucd_fragment]
    by (simp add: parse_prompt_file_None_iff extractor_parse_prompt_file_prompt)
qed

text \<open>
  C9 (as amended). On Scenario A both scripts give the prompt
  \<open>Fashion photography, editorial style\<close> and the aspect ratio \<open>1:1\<close>. The title
  derived from the file name is \<open>Fashion Photography\<close>; the title of the record is
  that text behind the fixed prefix \<open>Nano Banana\<close> and a middle dot.
\<close>

theorem scenario_a:
  "derived_title ucd_fragment (asc ''Fashion-Photography'') = asc ''Fashion Photography'' \<and>
   Option.bind (parse_prompt_file ucd_fragment doc_fashion path_fashion) prompt_of =
     Some (JStr (asc ''Fashion photography, editorial style'')) \<and>
   Option.bind (parse_prompt_file ucd_fragment doc_fashion path_fashion) title_of =
     Some (JStr (zh_title_prefix @ asc ''Fashion Photography'')) \<and>
   Option.bind (parse_prompt_file ucd_fragment doc_fashion path_fashion) ratio_of =
     Some (JStr (asc ''1:1'')) \<and>
   prompt_of (extractor_parse_prompt_file ucd_fragment md5_head doc_fashion path_fashion) =
     Some (JStr (asc ''Fashion photography, editorial style'')) \<and>
   title_of (extractor_parse_prompt_file ucd_fragment md5_head doc_fashion path_fashion) =
     Some (JStr (zh_title_prefix @ asc ''Fashion Photography'')) \<and>
   ratio_of (extractor_parse_prompt_file ucd_fragment md5_head doc_fashion path_fashion) =
     Some (JStr (asc ''1:1''))"
  unfolding parse_prompt_file_fashion extractor_parse_prompt_file_fashion fashion_title
  by (simp add: prompt_of_def title_of_def ratio_of_def asc_def)

text \<open>
  The claim as worded fails: the title of the record that \<open>parse_prompt_file\<close>
  returns is not \<open>Fashion Photography\<close>.
\<close>

theorem scenario_a_title_counterexample:
  "Option.bind (parse_prompt_file ucd_fragment doc_fashion path_fashion) title_of \<noteq>
     Some (JStr (asc ''Fashion Photography''))"
  unfolding parse_prompt_file_fashion
  by (simp add: title_of_def asc_def zh_title_prefix_def)

section \<open>Properties of the document locator\<close>

lemma foldl_join_append:
  "foldl join (a @ b) path = a @ foldl join b path"
  by (induction path arbitrary: b) (simp_all add: join_def)

lemma walk_sound:
  "(root, fs) \<in> set (walk r t) \<Longrightarrow> name \<in> set fs \<Longrightarrow>
   \<exists>path. entry_below t path name \<and> root = foldl join r path"
proof (induction t arbitrary: r)
  case (Tree fs' ds)
  from Tree.prems(1) consider "root = r" "fs = fs'"
    | d t' where "(d, t') \<in> set ds" "(root, fs) \<in> set (walk (join r d) t')"
    by auto
  then show ?case
  proof cases
    case 1
    then have "entry_below (Tree fs' ds) [] name"
      using Tree.prems(2) by (simp add: entry_below.here)
    with 1 show ?thesis by (intro exI [of _ "[]"]) simp
  next
    case 2
    then have "t' \<in> Basic_BNFs.snds (d, t')" "(d, t') \<in> set ds"
      by simp_all
    from Tree.IH [OF this(2) this(1) 2(2) Tree.prems(2)]
    obtain path where "entry_below t' path name" "root = foldl join (join r d) path"
      by blast
    then have "entry_below (Tree fs' ds) (d # path) name \<and> root = foldl join r (d # path)"
      using 2(1) by (simp add: entry_below.below)
    then show ?thesis by blast
  qed
qed

lemma walk_complete:
  "entry_below t path name \<Longrightarrow>
   \<exists>fs. (foldl join r path, fs) \<in> set (walk r t) \<and> name \<in> set fs"
proof (induction arbitrary: r rule: entry_below.induct)
  case (here name fs ds)
  then show ?case by auto
next
  case (below d t ds path name fs)
  from below.IH [of "join r d"]
  obtain fs' where "(foldl join (join r d) path, fs') \<in> set (walk (join r d) t)"
    "name \<in> set fs'" by blast
  with below.hyps(1) show ?case
    by (intro exI [of _ fs']) force
qed

lemma relpath_below:
  "relpath (join (foldl join (join repo_dir subtree_name) path) name) repo_dir =
     path_of path name"
proof -
  have "join repo_dir subtree_name = (repo_dir @ asc ''/'') @ subtree_name"
    by (simp add: join_def)
  then have "foldl join (join repo_dir subtree_name) path =
          (repo_dir @ asc ''/'') @ foldl join subtree_name path"
    by (simp only: foldl_join_append)
  then show ?thesis
    by (simp add: relpath_def join_def path_of_def startswith_def asc_def)
qed

lemma in_walk_results:
  "p \<in> set (concat (map (\<lambda>(root, fs). map (g root) (filter P fs)) ws)) \<longleftrightarrow>
     (\<exists>root fs name. (root, fs) \<in> set ws \<and> name \<in> set fs \<and> P name \<and> p = g root name)"
  by (simp add: split_beta image_iff Bex_def) blast

lemma find_template_files_iff:
  "p \<in> set (find_template_files U repo_dir repo) \<longleftrightarrow>
     (\<exists>t path name. map_of (dirs repo) subtree_name = Some t \<and> entry_below t path name \<and>
        endswith name (asc ''.md'') \<and> lower U name \<noteq> asc ''readme.md'' \<and>
        p = path_of path name)"
proof (cases "map_of (dirs repo) subtree_name")
  case None
  then show ?thesis by (simp add: find_template_files_def)
next
  case (Some t)
  let ?ok = "\<lambda>file. endswith file (asc ''.md'') \<and> lower U file \<noteq> asc ''readme.md''"
  let ?ws = "walk (join repo_dir subtree_name) t"
  have found: "p \<in> set (find_template_files U repo_dir repo) \<longleftrightarrow>
      (\<exists>root fs name. (root, fs) \<in> set ?ws \<and> name \<in> set fs \<and> ?ok name \<and>
         p = relpath (join root name) repo_dir)"
    unfolding find_template_files_def Let_def Some option.case
    by (rule in_walk_results)
  show ?thesis
  proof
    assume "p \<in> set (find_template_files U repo_dir repo)"
    then obtain root fs name where w: "(root, fs) \<in> set ?ws"
      and n: "name \<in> set fs" "?ok name" and p: "p = relpath (join root name) repo_dir"
      using found by blast
    from walk_sound [OF w n(1)] obtain path where
      e: "entry_below t path name" and r: "root = foldl join (join repo_dir subtree_name) path"
      by blast
    have "p = path_of path name"
      using p r relpath_below by simp
    with e n(2) Some show "\<exists>t path name. map_of (dirs repo) subtree_name = Some t \<and>
        entry_below t path name \<and> endswith name (asc ''.md'') \<and>
        lower U name \<noteq> asc ''readme.md'' \<and> p = path_of path name"
      by blast
  next
    assume "\<exists>t path name. map_of (dirs repo) subtree_name = Some t \<and>
        entry_below t path name \<and> endswith name (asc ''.md'') \<and>
        lower U name \<noteq> asc ''readme.md'' \<and> p = path_of path name"
    then obtain path name where e: "entry_below t path name"
      and n: "?ok name" and p: "p = path_of path name"
      using Some by auto
    from walk_complete [OF e, of "join repo_dir subtree_name"] obtain fs where
      w: "(foldl join (join repo_dir subtree_name) path, fs) \<in> set ?ws" "name \<in> set fs"
      by blast
    have "p = relpath (join (foldl join (join repo_dir subtree_name) path) name) repo_dir"
      using p relpath_below by simp
    with w n show "p \<in> set (find_template_files U repo_dir repo)"
      using found by blast
  qed
qed

lemma asc_append: "asc a @ asc b = asc (a @ b)"
  by (simp add: asc_def)

lemma lower_readmes:
  "lower U (asc ''README.md'') = asc ''readme.md''"
  "lower U (asc ''readme.md'') = asc ''readme.md''"
  "lower U (asc ''Sample.md'') = asc ''sample.md''"
  by (simp_all add: text_eval)

lemma md_names:
  "endswith (asc ''README.md'') (asc ''.md'')"
  "endswith (asc ''readme.md'') (asc ''.md'')"
  "\<not> endswith (asc ''Readme.MD'') (asc ''.md'')"
  "endswith (asc ''Sample.md'') (asc ''.md'')"
  "asc ''readme.md'' \<noteq> asc ''README.md''"
  "asc ''Sample.md'' \<noteq> asc ''README.md''"
  "asc ''sample.md'' \<noteq> asc ''readme.md''"
  by (simp_all add: endswith_def asc_def)

lemma walk_readmes:
  "walk (join repo_dir subtree_name)
     (Tree [asc ''README.md'', asc ''readme.md'', asc ''Readme.MD'']
           [(asc ''Art-style'', Tree [asc ''Sample.md''] [])]) =
   [(join repo_dir subtree_name, [asc ''README.md'', asc ''readme.md'', asc ''Readme.MD'']),
    (join (join repo_dir subtree_name) (asc ''Art-style''), [asc ''Sample.md''])]"
  by simp

lemma relpath_readmes:
  "relpath (join (join repo_dir subtree_name) name) repo_dir = subtree_name @ asc ''/'' @ name"
  "relpath (join (join (join repo_dir subtree_name) d) name) repo_dir =
     subtree_name @ asc ''/'' @ d @ asc ''/'' @ name"
  by (simp_all add: relpath_def join_def startswith_def asc_def)

text \<open>
  C7. The claim asks that every entry whose base name is the readme document in any
  spelling of its letters is left out. \<open>find_template_files\<close> of
  extract\_from\_github.py lowers the name before it compares. The method of the class
  compares with \<open>README.md\<close> as it is: of a directory that holds \<open>README.md\<close>,
  \<open>readme.md\<close>, \<open>Readme.MD\<close> and, one level down, \<open>Sample.md\<close>, it returns
  \<open>readme.md\<close> among the template documents.
\<close>

theorem readme_returned_as_template:
  "extractor_find_template_files (asc ''temp_github_repo'') tree_readmes =
     [subtree_name @ asc ''/readme.md'', subtree_name @ asc ''/Art-style/Sample.md''] \<and>
   find_template_files ucd_fragment (asc ''temp_banana_repo'') tree_readmes =
     [subtree_name @ asc ''/Art-style/Sample.md''] \<and>
   lower ucd_fragment (asc ''readme.md'') = asc ''readme.md''"
proof -
  have "extractor_find_template_files (asc ''temp_github_repo'') tree_readmes =
     [subtree_name @ asc ''/'' @ asc ''readme.md'',
      subtree_name @ asc ''/'' @ asc ''Art-style'' @ asc ''/'' @ asc ''Sample.md'']"
    unfolding extractor_find_template_files_def tree_readmes_def Let_def
    by (simp add: walk_readmes md_names relpath_readmes del: walk.simps)
  moreover have "find_template_files ucd_fragment (asc ''temp_banana_repo'') tree_readmes =
     [subtree_name @ asc ''/'' @ asc ''Art-style'' @ asc ''/'' @ asc ''Sample.md'']"
    unfolding find_template_files_def tree_readmes_def Let_def
    by (simp add: walk_readmes md_names lower_readmes relpath_readmes del: walk.simps)
  ultimately show ?thesis
    by (simp add: lower_readmes asc_append)
qed
section \<open>Numerals: formatting and reading back\<close>












section \<open>The identifiers of a run\<close>










section \<open>The example runs, step by step\<close>

lemma sample_parts:
  "last (split 47 (replace path_sample (asc ''.md'') [])) = asc ''Sample''"
  "last (split 47 (replace path_copy (asc ''.md'') [])) = asc ''Copy''"
  by (simp_all add: path_sample_def path_copy_def asc_def replace.simps startswith_def)

lemma sample_titles:
  "derived_title U (asc ''Sample'') = asc ''Sample''"
  "derived_title U (asc ''Copy'') = asc ''Copy''"
  by (simp_all add: derived_title_def text_eval)

lemma lower_sample:
  "lower U (asc ''Sample'') = asc ''sample''"
  "lower U (asc ''Copy'') = asc ''copy''"
  by (simp_all add: text_eval)

lemma classify_template_sample:
  "classify_template U (asc ''Sample'') content = ([zh_all], [zh_all], [zh_general], asc ''1:1'')"
  "classify_template U (asc ''Copy'') content = ([zh_all], [zh_all], [zh_general], asc ''1:1'')"
  unfolding classify_template_def Let_def lower_sample
  by (simp_all add: any_in_def asc_def startswith_def zh_keywords)

lemma cat_facts:
  "asc ''A cat'' \<noteq> []"
  "doc_english_first \<noteq> []"
  "take 100 (asc ''A cat'') = asc ''A cat''"
  "take 100 (asc ''Fashion photography, editorial style'') =
     asc ''Fashion photography, editorial style''"
  "asc ''A cat'' \<noteq> asc ''Fashion photography, editorial style''"
  "path_sample \<noteq> path_fashion"
  "path_copy \<noteq> path_fashion"
  by (simp_all add: asc_def doc_english_first_def path_sample_def path_copy_def
      path_fashion_def)

lemma parse_prompt_file_sample:
  "parse_prompt_file U doc_english_first path_sample =
     Some (plain_template (asc ''Sample'') (asc ''A cat'') path_sample)"
  "parse_prompt_file U doc_english_first path_copy =
     Some (plain_template (asc ''Copy'') (asc ''A cat'') path_copy)"
  unfolding parse_prompt_file_def Let_def sample_parts extract_prompt_text_english_first
    sample_titles classify_template_sample plain_template_def
  by (simp_all add: cat_facts short_prompts)

lemma parse_prompt_file_fashion_template:
  "parse_prompt_file U doc_fashion path_fashion = Some template_fashion"
  by (simp add: parse_prompt_file_fashion template_fashion_def)

lemma template_prompts:
  "map_of (plain_template name prompt filepath) (asc ''prompt'') = Some (JStr prompt)"
  "map_of template_fashion (asc ''prompt'') =
     Some (JStr (asc ''Fashion photography, editorial style''))"
  "map_of item_cat (asc ''prompt'') = Some (JStr (asc ''A cat''))"
  "map_of item_cat (asc ''id'') = Some (JStr (asc ''nbp-007''))"
  by (simp_all add: plain_template_def template_fashion_def item_cat_def asc_def)

lemma is_duplicate_sample:
  "is_duplicate [item_cat] (plain_template name (asc ''A cat'') filepath) = Inr True"
  "is_duplicate [item_cat] template_fashion = Inr False"
  "is_duplicate [] template = Inr False"
  by (simp_all add: template_prompts cat_facts)

lemma ids_read:
  "py_int U (replace (asc ''nbp-001'') (asc ''nbp-'') []) = Some 1"
  "py_int U (replace (asc ''nbp-007'') (asc ''nbp-'') []) = Some 7"
  "py_int U (replace (asc ''nbp-008'') (asc ''nbp-'') []) = Some 8"
  by (simp_all add: text_eval int_eval)

lemma ids_written:
  "asc ''nbp-'' @ format_0d 3 1 = asc ''nbp-001''"
  "asc ''nbp-'' @ format_0d 3 2 = asc ''nbp-002''"
  "asc ''nbp-'' @ format_0d 3 8 = asc ''nbp-008''"
  by (simp_all add: asc_def int_eval)

lemma get_next_id_sample:
  "get_next_id U [] = Inr (asc ''nbp-001'')"
  "get_next_id U [AList.update (asc ''id'') (JStr (asc ''nbp-001'')) template] =
     Inr (asc ''nbp-002'')"
  "get_next_id U [item_cat] = Inr (asc ''nbp-008'')"
  by (simp_all add: get_next_id_def update_conv' template_prompts ids_read ids_written)

lemma parse_loop_two_copies:
  "parse_loop U read_sample [] [path_sample, path_copy] [] =
     Inr [AList.update (asc ''id'') (JStr (asc ''nbp-001''))
            (plain_template (asc ''Sample'') (asc ''A cat'') path_sample),
          AList.update (asc ''id'') (JStr (asc ''nbp-002''))
            (plain_template (asc ''Copy'') (asc ''A cat'') path_copy)]"
  by (simp add: read_sample_def cat_facts parse_prompt_file_sample get_next_id_sample)

lemma parse_loop_duplicate:
  "parse_loop U read_sample [item_cat] [path_sample] [] = Inr []"
  by (simp add: read_sample_def cat_facts parse_prompt_file_sample is_duplicate_sample
      del: is_duplicate.simps)

lemma parse_loop_one_new:
  "parse_loop U read_sample [item_cat] [path_sample, path_fashion] [] =
     Inr [AList.update (asc ''id'') (JStr (asc ''nbp-008'')) template_fashion]"
  by (simp add: read_sample_def cat_facts parse_prompt_file_sample doc_fashion_nonempty
      parse_prompt_file_fashion_template is_duplicate_sample get_next_id_sample
      del: is_duplicate.simps)
section \<open>Properties of deduplication and merge\<close>

lemma key_facts:
  "asc ''id'' \<noteq> asc ''prompt''" "asc ''prompt'' \<noteq> asc ''id''"
  "asc ''version'' \<noteq> asc ''updated_at''" "asc ''updated_at'' \<noteq> asc ''version''"
  by (simp_all add: asc_def)

text \<open>
  Against the items of the catalog the loop does what the claim says: the candidate is
  a duplicate exactly when the first 100 characters of its prompt are those of the
  prompt of some item.
\<close>

lemma is_duplicate_existing:
  assumes "\<forall>existing\<in>set existing_items. prompt_is_text existing"
    and "map_of template (asc ''prompt'') = Some (JStr p)"
  shows "is_duplicate existing_items template =
           Inr (\<exists>existing\<in>set existing_items. prompt_prefix existing = take 100 p)"
  using assms
proof (induction existing_items)
  case Nil
  then show ?case by simp
next
  case (Cons existing existing_items)
  then have ih: "is_duplicate existing_items template =
      Inr (\<exists>existing\<in>set existing_items. prompt_prefix existing = take 100 p)"
    by simp
  from Cons.prems(1) have "prompt_is_text existing" by simp
  then consider "map_of existing (asc ''prompt'') = None"
    | s where "map_of existing (asc ''prompt'') = Some (JStr s)"
    by (auto simp: prompt_is_text_def split: option.splits jvalue.splits)
  then show ?case
  proof cases
    case 1
    then show ?thesis
      using Cons.prems(2) ih by (auto simp: prompt_prefix_def)
  next
    case 2
    then show ?thesis
      using Cons.prems(2) ih by (auto simp: prompt_prefix_def)
  qed
qed

text \<open>
  C2. The claim counts a candidate as a duplicate also when its prompt begins like the
  prompt of a record accepted earlier in the same run. The loop of \<open>main\<close> compares
  with the items of the catalog only, although the identifier two lines further on is
  computed from the catalog and the records of the run together. With an empty
  catalog and two documents whose prompt is \<open>A cat\<close>, both are accepted, as
  \<open>nbp-001\<close> and \<open>nbp-002\<close>, and both are written to the catalog.
\<close>

theorem duplicate_within_run_accepted:
  "parse_loop ucd_fragment read_sample [] [path_sample, path_copy] [] =
     Inr [AList.update (asc ''id'') (JStr (asc ''nbp-001''))
            (plain_template (asc ''Sample'') (asc ''A cat'') path_sample),
          AList.update (asc ''id'') (JStr (asc ''nbp-002''))
            (plain_template (asc ''Copy'') (asc ''A cat'') path_copy)] \<and>
   prompt_of (AList.update (asc ''id'') (JStr (asc ''nbp-001''))
                (plain_template (asc ''Sample'') (asc ''A cat'') path_sample)) =
     Some (JStr (asc ''A cat'')) \<and>
   prompt_of (AList.update (asc ''id'') (JStr (asc ''nbp-002''))
                (plain_template (asc ''Copy'') (asc ''A cat'') path_copy)) =
     Some (JStr (asc ''A cat'')) \<and>
   snd (main ucd_fragment today_sample now_sample Completes True [path_sample, path_copy]
          read_sample (Holds catalog_empty)) =
     Holds \<lparr> meta = Some [(asc ''version'', today_sample), (asc ''updated_at'', now_sample)],
             items = Some [AList.update (asc ''id'') (JStr (asc ''nbp-001''))
                             (plain_template (asc ''Sample'') (asc ''A cat'') path_sample),
                           AList.update (asc ''id'') (JStr (asc ''nbp-002''))
                             (plain_template (asc ''Copy'') (asc ''A cat'') path_copy)] \<rparr>"
proof -
  have "snd (main ucd_fragment today_sample now_sample Completes True [path_sample, path_copy]
          read_sample (Holds catalog_empty)) =
     Holds \<lparr> meta = Some [(asc ''version'', today_sample), (asc ''updated_at'', now_sample)],
             items = Some [AList.update (asc ''id'') (JStr (asc ''nbp-001''))
                             (plain_template (asc ''Sample'') (asc ''A cat'') path_sample),
                           AList.update (asc ''id'') (JStr (asc ''nbp-002''))
                             (plain_template (asc ''Copy'') (asc ''A cat'') path_copy)] \<rparr>"
    unfolding main_def catalog_empty_def
    by (simp add: parse_loop_two_copies save_def key_facts del: parse_loop.simps)
  then show ?thesis
    using parse_loop_two_copies [of ucd_fragment]
    by (simp add: prompt_of_def update_conv' template_prompts key_facts del: parse_loop.simps)
qed

lemma main_no_new_records:
  "parse_loop U read (case items data of None \<Rightarrow> [] | Some xs \<Rightarrow> xs)
     (take 50 template_files) [] = Inr [] \<Longrightarrow>
   main U today now fault cloned template_files read (Holds data) = (None, Holds data)"
  by (simp add: main_def)

lemma main_new_records:
  assumes "cloned" "template_files \<noteq> []" "meta data = Some m" "items data = Some xs"
    and "parse_loop U read xs (take 50 template_files) [] = Inr new_templates"
    and "new_templates \<noteq> []"
  shows "main U today now fault cloned template_files read (Holds data) =
     save fault (Holds data)
       \<lparr> meta = Some (AList.update (asc ''updated_at'') now
                       (AList.update (asc ''version'') today m)),
         items = Some (xs @ new_templates) \<rparr>"
  using assms by (simp add: main_def)

text \<open>
  C5 (as amended). A run that accepts no new record does not write at all: the
  catalog file is left as it was, \<open>meta.version\<close> and \<open>meta.updated_at\<close> included.
\<close>

theorem no_new_records_file_untouched:
  "(\<not> cloned \<or> template_files = [] \<longrightarrow>
      main U today now fault cloned template_files read stored = (None, stored)) \<and>
   (parse_loop U read (case items data of None \<Rightarrow> [] | Some xs \<Rightarrow> xs)
      (take 50 template_files) [] = Inr [] \<longrightarrow>
      main U today now fault cloned template_files read (Holds data) = (None, Holds data))"
  by (auto simp: main_def)

lemma main_duplicate_run:
  "main ucd_fragment today_sample now_sample Completes True [path_sample] read_sample
     (Holds catalog_sample) = (None, Holds catalog_sample)"
  by (rule main_no_new_records) (simp add: catalog_sample_def parse_loop_duplicate
      del: parse_loop.simps)

theorem no_new_records_file_untouched_witness:
  "main ucd_fragment today_sample now_sample Completes False [path_sample] read_sample
     (Holds catalog_sample) = (None, Holds catalog_sample) \<and>
   parse_loop ucd_fragment read_sample [item_cat] [path_sample] [] = Inr [] \<and>
   main ucd_fragment today_sample now_sample Completes True [path_sample] read_sample
     (Holds catalog_sample) = (None, Holds catalog_sample)"
  using
    no_new_records_file_untouched [where cloned = False and U = ucd_fragment
      and today = today_sample and now = now_sample and fault = Completes
      and template_files = "[path_sample]" and read = read_sample
      and stored = "Holds catalog_sample" and data = catalog_sample]
    no_new_records_file_untouched [where cloned = True and U = ucd_fragment
      and today = today_sample and now = now_sample and fault = Completes
      and template_files = "[path_sample]" and read = read_sample
      and stored = "Holds catalog_sample" and data = catalog_sample]
    parse_loop_duplicate [of ucd_fragment]
  by (simp add: catalog_sample_def del: parse_loop.simps)

text \<open>
  The claim as worded fails: after the run in which the only candidate is a
  duplicate, the version of the catalog is still that of 2024 and not the date of the
  run.
\<close>

theorem version_not_refreshed_counterexample:
  "version_of (snd (main ucd_fragment today_sample now_sample Completes True [path_sample]
                      read_sample (Holds catalog_sample))) = Some (asc ''2024-01-01'') \<and>
   asc ''2024-01-01'' \<noteq> today_sample"
  unfolding main_duplicate_run
  by (simp add: version_of_def catalog_sample_def today_sample_def asc_def)

text \<open>
  C4 (as amended). The merger writes the updated catalog into the catalog file
  itself, with \<open>open(path, 'w')\<close> and \<open>json.dump\<close>; there is no temporary file and no
  rename. When both calls succeed the file holds the updated catalog. When the file
  cannot be opened it is left as it was. When \<open>json.dump\<close> fails after the file has
  been opened, the catalog that the file held is lost.
\<close>

theorem catalog_written_in_place:
  "cloned \<and> template_files \<noteq> [] \<and> meta data = Some m \<and> items data = Some xs \<and>
   parse_loop U read xs (take 50 template_files) [] = Inr new_templates \<and>
   new_templates \<noteq> [] \<longrightarrow>
     main U today now Completes cloned template_files read (Holds data) =
       (None, Holds \<lparr> meta = Some (AList.update (asc ''updated_at'') now
                                      (AList.update (asc ''version'') today m)),
                       items = Some (xs @ new_templates) \<rparr>) \<and>
     main U today now Open_fails cloned template_files read (Holds data) =
       (Some OSError, Holds data) \<and>
     main U today now Dump_fails cloned template_files read (Holds data) =
       (Some OSError, Garbled)"
  by (simp add: main_new_records save_def)

lemma sample_run_facts:
  "meta catalog_sample =
     Some [(asc ''version'', asc ''2024-01-01''), (asc ''updated_at'', asc ''2024-01-01T00:00:00'')]"
  "items catalog_sample = Some [item_cat]"
  "take 50 [path_sample, path_fashion] = [path_sample, path_fashion]"
  "AList.update (asc ''updated_at'') now_sample
     (AList.update (asc ''version'') today_sample
        [(asc ''version'', asc ''2024-01-01''), (asc ''updated_at'', asc ''2024-01-01T00:00:00'')]) =
   [(asc ''version'', today_sample), (asc ''updated_at'', now_sample)]"
  by (simp_all add: catalog_sample_def asc_def)

theorem catalog_written_in_place_witness:
  "main ucd_fragment today_sample now_sample Completes True [path_sample, path_fashion]
     read_sample (Holds catalog_sample) =
     (None, Holds \<lparr> meta = Some [(asc ''version'', today_sample),
                                  (asc ''updated_at'', now_sample)],
                     items = Some [item_cat,
                                   AList.update (asc ''id'') (JStr (asc ''nbp-008''))
                                     template_fashion] \<rparr>) \<and>
   main ucd_fragment today_sample now_sample Open_fails True [path_sample, path_fashion]
     read_sample (Holds catalog_sample) = (Some OSError, Holds catalog_sample) \<and>
   main ucd_fragment today_sample now_sample Dump_fails True [path_sample, path_fashion]
     read_sample (Holds catalog_sample) = (Some OSError, Garbled)"
  using catalog_written_in_place [where cloned = True and U = ucd_fragment
      and today = today_sample and now = now_sample
      and template_files = "[path_sample, path_fashion]" and read = read_sample
      and data = catalog_sample and xs = "[item_cat]"
      and m = "[(asc ''version'', asc ''2024-01-01''),
                (asc ''updated_at'', asc ''2024-01-01T00:00:00'')]"
      and new_templates = "[AList.update (asc ''id'') (JStr (asc ''nbp-008'')) template_fashion]"]
    parse_loop_one_new [of ucd_fragment]
  by (simp add: sample_run_facts key_facts del: parse_loop.simps)

text \<open>
  The claim as worded fails: in the run that accepts the document of Scenario A, a
  failure of \<open>json.dump\<close> leaves a file that no longer holds the catalog.
\<close>

theorem write_not_atomic_counterexample:
  "snd (main ucd_fragment today_sample now_sample Dump_fails True [path_sample, path_fashion]
          read_sample (Holds catalog_sample)) \<noteq> Holds catalog_sample"
proof -
  have "main ucd_fragment today_sample now_sample Dump_fails True [path_sample, path_fashion]
          read_sample (Holds catalog_sample) =
        save Dump_fails (Holds catalog_sample)
          \<lparr> meta = Some (AList.update (asc ''updated_at'') now_sample
                          (AList.update (asc ''version'') today_sample
                             [(asc ''version'', asc ''2024-01-01''),
                              (asc ''updated_at'', asc ''2024-01-01T00:00:00'')])),
            items = Some ([item_cat]
                      @ [AList.update (asc ''id'') (JStr (asc ''nbp-008'')) template_fashion]) \<rparr>"
    by (rule main_new_records)
       (simp_all add: sample_run_facts parse_loop_one_new del: parse_loop.simps)
  then show ?thesis by (simp add: save_def)
qed








end
